theory Spec2Isabelle
  imports Complex_Main
begin

section \<open>Tank and valve simulator\<close>

text \<open>
  The repository holds two variants of one Streamlit script. Both are embedded here:
  \<^item> \<^verbatim>\<open>streamlit-tank-valve.py\<close>: the tank is a pure calculator, the volume lives in the
    session state (\<open>tank_volume\<close>); its definitions carry the source's names;
  \<^item> \<^verbatim>\<open>TankValveSim.py\<close>: the tank object stores its own volume \<open>V\<close> and the script has
    the valve-control overlay; its definitions carry the prefix \<open>TVS_\<close>.

  Python floats are read as real numbers: the definitions compute with exact
  arithmetic, comparisons and \<open>min\<close>/\<open>max\<close>, and say nothing about rounding, \<open>nan\<close> or
  \<open>inf\<close>. Wall-clock readings (\<open>time.time()\<close>, \<open>datetime.now()\<close>) are parameters of the
  functions that read them. A Python exception is the \<open>Inl\<close> branch of a sum.
\<close>

datatype py_error = ZeroDivisionError

text \<open>\<open>np.clip(x, a_min, a_max)\<close> is \<open>minimum(maximum(x, a_min), a_max)\<close>.\<close>

definition clip :: "real \<Rightarrow> real \<Rightarrow> real \<Rightarrow> real" where
  "clip x a_min a_max = min (max x a_min) a_max"

subsection \<open>\<^verbatim>\<open>streamlit-tank-valve.py\<close>: class Tank\<close>

record Tank =
  A :: real
  H_max :: real

text \<open>
  \<open>Tank.__init__\<close> stores its two arguments and has no \<open>raise\<close>: the result is always
  the \<open>Inr\<close> branch.
\<close>

definition Tank_init :: "real \<Rightarrow> real \<Rightarrow> py_error + Tank" where
  "Tank_init area height = Inr \<lparr>A = area, H_max = height\<rparr>"

definition V_max :: "Tank \<Rightarrow> real" where
  "V_max t = A t * H_max t"

definition step :: "Tank \<Rightarrow> real \<Rightarrow> real \<Rightarrow> real \<Rightarrow> real \<Rightarrow> real" where
  "step t volume dt Q_in Q_out =
     (let dV = (Q_in - Q_out) * dt;
          new_volume = clip (volume + dV) 0 (V_max t)
      in new_volume)"

text \<open>
  \<open>volume / self.V_max()\<close> divides by zero when the geometry has no volume; the
  division of Python floats raises \<open>ZeroDivisionError\<close> there. (When the dividend is
  the NumPy scalar that \<open>np.clip\<close> returned, the division gives \<open>nan\<close> or \<open>inf\<close>
  with a warning instead; the reals have neither. Every theorem about \<open>level\<close> below
  is about a geometry with \<open>V_max\<close> different from 0, where the two agree.)
\<close>

definition level :: "Tank \<Rightarrow> real \<Rightarrow> py_error + real" where
  "level t volume =
     (if V_max t = 0 then Inl ZeroDivisionError
      else Inr (min 1 (max 0 (volume / V_max t))))"

definition is_overflow :: "Tank \<Rightarrow> real \<Rightarrow> bool" where
  "is_overflow t volume \<longleftrightarrow> volume \<ge> V_max t - 1 / 10 ^ 6"

subsection \<open>\<^verbatim>\<open>TankValveSim.py\<close>: classes Tank and Valve\<close>

record TVS_Tank =
  TVS_A :: real
  TVS_H_max :: real
  TVS_V :: real

definition TVS_Tank_init :: "real \<Rightarrow> real \<Rightarrow> py_error + TVS_Tank" where
  "TVS_Tank_init area height = Inr \<lparr>TVS_A = area, TVS_H_max = height, TVS_V = 0\<rparr>"

definition TVS_V_max :: "TVS_Tank \<Rightarrow> real" where
  "TVS_V_max t = TVS_A t * TVS_H_max t"

text \<open>\<open>step\<close> assigns \<open>self.V\<close> and returns it: the model returns the updated tank.\<close>

definition TVS_step :: "TVS_Tank \<Rightarrow> real \<Rightarrow> real \<Rightarrow> real \<Rightarrow> TVS_Tank" where
  "TVS_step t dt Q_in Q_out =
     (let dV = (Q_in - Q_out) * dt
      in t\<lparr>TVS_V := clip (TVS_V t + dV) 0 (TVS_V_max t)\<rparr>)"

definition TVS_level :: "TVS_Tank \<Rightarrow> py_error + real" where
  "TVS_level t =
     (if TVS_V_max t = 0 then Inl ZeroDivisionError
      else Inr (min 1 (max 0 (TVS_V t / TVS_V_max t))))"

definition TVS_is_overflow :: "TVS_Tank \<Rightarrow> bool" where
  "TVS_is_overflow t \<longleftrightarrow> TVS_V t \<ge> TVS_V_max t - 1 / 10 ^ 6"

record Valve =
  Cv :: real
  position :: real

definition Valve_init :: "real \<Rightarrow> Valve" where
  "Valve_init cv = \<lparr>Cv = cv, position = 0\<rparr>"

definition flow_rate :: "Valve \<Rightarrow> real" where
  "flow_rate v = Cv v * position v"

subsection \<open>History buffer (both files)\<close>

text \<open>
  A history entry is the dictionary with the keys \<open>time\<close>, \<open>level\<close>, \<open>Q_in\<close>, \<open>Q_out\<close>.
\<close>

record sample =
  s_time :: real
  s_level :: real
  s_Q_in :: real
  s_Q_out :: real

text \<open>
  \<open>history.append(x)\<close> followed by \<open>if len(history) > 100: history.pop(0)\<close>. The
  list is longer than 100 where \<open>pop(0)\<close> runs, so it never pops from an empty list.
\<close>

definition record_history :: "'a list \<Rightarrow> 'a \<Rightarrow> 'a list" where
  "record_history history x =
     (let appended = history @ [x]
      in if length appended > 100 then tl appended else appended)"

subsection \<open>\<^verbatim>\<open>streamlit-tank-valve.py\<close>: session state, simulation update, reset\<close>

text \<open>
  \<open>inlet_flow_value\<close> and \<open>outlet_flow_value\<close> are read with
  \<open>st.session_state.get(key, default)\<close>: they are absent until the sliders have run.
\<close>

record session =
  tank_volume :: real
  inlet_open :: bool
  valve_position :: real
  history :: "sample list"
  last_update :: real
  paused :: bool
  tank_area :: real
  inlet_flow_value :: "real option"
  outlet_flow_value :: "real option"

text \<open>\<open>dt = min(current_time - st.session_state.last_update, 0.1)\<close>, in both files.\<close>

definition tick_dt :: "real \<Rightarrow> real \<Rightarrow> real" where
  "tick_dt current_time last_time = min (current_time - last_time) 0.1"

text \<open>The script builds its tank on every run: \<open>tank = Tank(area=tank_area, height=1.0)\<close>.\<close>

definition script_tank :: "session \<Rightarrow> py_error + Tank" where
  "script_tank s = Tank_init (tank_area s) 1"

text \<open>
  The block under \<open>if not st.session_state.paused\<close>. \<open>current_time\<close> is the reading of
  \<open>time.time()\<close>, \<open>now\<close> the reading of \<open>datetime.now()\<close>. The block assigns \<open>tank.A\<close>, so
  the tank is returned with the session.
\<close>

definition simulation_update ::
    "Tank \<Rightarrow> real \<Rightarrow> real \<Rightarrow> session \<Rightarrow> py_error + (Tank \<times> session)" where
  "simulation_update tank current_time now s =
     (if paused s then Inr (tank, s)
      else
        let dt = tick_dt current_time (last_update s);
            inlet_flow = (case inlet_flow_value s of None \<Rightarrow> 0.8 | Some v \<Rightarrow> v);
            outlet_flow = (case outlet_flow_value s of None \<Rightarrow> 0.35 | Some v \<Rightarrow> v);
            Q_in = (if inlet_open s then inlet_flow else 0);
            Q_out = outlet_flow;
            tank1 = tank\<lparr>A := tank_area s\<rparr>;
            s1 = s\<lparr>tank_volume := step tank1 (tank_volume s) dt Q_in Q_out\<rparr>;
            s2 = s1\<lparr>last_update := current_time\<rparr>
        in case level tank1 (tank_volume s2) of
             Inl e \<Rightarrow> Inl e
           | Inr l \<Rightarrow>
               Inr (tank1,
                    s2\<lparr>history := record_history (history s2)
                       \<lparr>s_time = now, s_level = l * 100, s_Q_in = Q_in, s_Q_out = Q_out\<rparr>\<rparr>))"

text \<open>The handler of the Reset button.\<close>

definition reset :: "session \<Rightarrow> session" where
  "reset s = s\<lparr>tank_volume := 0, inlet_open := False, history := []\<rparr>"

subsection \<open>\<^verbatim>\<open>TankValveSim.py\<close>: session state, simulation update, reset, overlay\<close>

text \<open>
  \<open>TVS_inlet_flow\<close> and \<open>TVS_outlet_flow\<close> are the values of the sliders with the keys
  \<open>inlet_flow\<close> and \<open>outlet_flow\<close>, which the script reads into locals of the same names.
\<close>

record TVS_session =
  TVS_tank_volume :: real
  TVS_inlet_open :: bool
  TVS_valve_position :: real
  TVS_show_valve_modal :: bool
  TVS_history :: "sample list"
  TVS_last_update :: real
  TVS_paused :: bool
  TVS_modal_opened_at :: "real option"
  TVS_tank :: TVS_Tank
  TVS_valve :: Valve
  TVS_inlet_flow :: real
  TVS_outlet_flow :: real

definition TVS_simulation_update :: "real \<Rightarrow> real \<Rightarrow> TVS_session \<Rightarrow> py_error + TVS_session" where
  "TVS_simulation_update current_time now s =
     (if TVS_paused s then Inr s
      else
        let dt = tick_dt current_time (TVS_last_update s);
            Q_in = (if TVS_inlet_open s then TVS_inlet_flow s else 0);
            Q_out = TVS_outlet_flow s;
            s1 = s\<lparr>TVS_tank := TVS_step (TVS_tank s) dt Q_in Q_out\<rparr>;
            s2 = s1\<lparr>TVS_last_update := current_time\<rparr>
        in case TVS_level (TVS_tank s2) of
             Inl e \<Rightarrow> Inl e
           | Inr l \<Rightarrow>
               Inr (s2\<lparr>TVS_history := record_history (TVS_history s2)
                       \<lparr>s_time = now, s_level = l * 100, s_Q_in = Q_in, s_Q_out = Q_out\<rparr>\<rparr>))"

definition TVS_reset :: "TVS_session \<Rightarrow> TVS_session" where
  "TVS_reset s =
     s\<lparr>TVS_tank := (TVS_tank s)\<lparr>TVS_V := 0\<rparr>, TVS_inlet_open := False, TVS_history := []\<rparr>"

text \<open>The handler of the button "Open Valve Control"; \<open>now\<close> is the reading of \<open>time.time()\<close>.\<close>

definition open_valve_control :: "real \<Rightarrow> TVS_session \<Rightarrow> TVS_session" where
  "open_valve_control now s = s\<lparr>TVS_show_valve_modal := True, TVS_modal_opened_at := Some now\<rparr>"

text \<open>
  Python's truth value of \<open>modal_opened_at\<close>: \<open>None\<close> is false, and so is the float \<open>0.0\<close>.
\<close>

fun truthy :: "real option \<Rightarrow> bool" where
  "truthy None = False"
| "truthy (Some x) = (x \<noteq> 0)"

text \<open>
  The timeout check at the head of the modal block, run on every script run:
  \<open>if show_valve_modal: if modal_opened_at and (time.time() - modal_opened_at) > 5:
  show_valve_modal = False\<close>.
\<close>

definition valve_modal_timeout :: "real \<Rightarrow> TVS_session \<Rightarrow> TVS_session" where
  "valve_modal_timeout now s =
     (if TVS_show_valve_modal s then
        (case TVS_modal_opened_at s of
           None \<Rightarrow> s
         | Some opened_at \<Rightarrow>
             if truthy (Some opened_at) \<and> now - opened_at > 5
             then s\<lparr>TVS_show_valve_modal := False\<rparr>
             else s)
      else s)"

text \<open>The handlers of the buttons "Close", "Fully Open" and "Fully Close".\<close>

definition close_modal :: "TVS_session \<Rightarrow> TVS_session" where
  "close_modal s = s\<lparr>TVS_show_valve_modal := False\<rparr>"

definition fully_open :: "TVS_session \<Rightarrow> TVS_session" where
  "fully_open s = s\<lparr>TVS_valve_position := 1\<rparr>"

definition fully_close :: "TVS_session \<Rightarrow> TVS_session" where
  "fully_close s = s\<lparr>TVS_valve_position := 0\<rparr>"

text \<open>A run of script executions with the overlay untouched: one timeout check per run.\<close>

fun modal_ticks :: "real list \<Rightarrow> TVS_session \<Rightarrow> TVS_session" where
  "modal_ticks [] s = s"
| "modal_ticks (now # nows) s = modal_ticks nows (valve_modal_timeout now s)"

subsection \<open>The clamp of the specification\<close>

text \<open>
  The specification's \<open>clamp(x, lo, hi)\<close>, written from its words for comparison with
  \<open>tick_dt\<close>: the value \<open>x\<close> brought into \<open>[lo, hi]\<close>.
\<close>

definition spec_clamp :: "real \<Rightarrow> real \<Rightarrow> real \<Rightarrow> real" where
  "spec_clamp x lo hi = max lo (min x hi)"

section \<open>Integration step\<close>

lemma clip_bounds: "a_min \<le> a_max \<Longrightarrow> a_min \<le> clip x a_min a_max \<and> clip x a_min a_max \<le> a_max"
  by (simp add: clip_def)

text \<open>
  C1. For every volume in \<open>[0, maxVolume]\<close>, all flows \<open>qIn, qOut \<ge> 0\<close> and every
  \<open>dt\<close> in \<open>[0, 0.1]\<close>, the step returns a volume between 0 and
  \<open>maxVolume = crossSectionArea * maxHeight\<close>. Stated for the pure step of
  \<^verbatim>\<open>streamlit-tank-valve.py\<close> and for the stored volume of \<^verbatim>\<open>TankValveSim.py\<close>.
\<close>

theorem step_within_bounds:
  assumes "0 \<le> volume" and "volume \<le> A t * H_max t"
    and "0 \<le> TVS_V u" and "TVS_V u \<le> TVS_A u * TVS_H_max u"
    and "0 \<le> Q_in" and "0 \<le> Q_out" and "0 \<le> dt" and "dt \<le> 0.1"
  shows "0 \<le> step t volume dt Q_in Q_out \<and> step t volume dt Q_in Q_out \<le> A t * H_max t
       \<and> 0 \<le> TVS_V (TVS_step u dt Q_in Q_out)
       \<and> TVS_V (TVS_step u dt Q_in Q_out) \<le> TVS_A u * TVS_H_max u"
proof -
  from assms have le: "(0::real) \<le> V_max t" "(0::real) \<le> TVS_V_max u"
    by (simp_all add: V_max_def TVS_V_max_def)
  from clip_bounds [OF le(1)] clip_bounds [OF le(2)] show ?thesis
    by (simp add: step_def TVS_step_def V_max_def TVS_V_max_def)
qed

theorem step_within_bounds_witness:
  "0 \<le> step \<lparr>A = 1.2, H_max = 1\<rparr> 1.19 0.1 1.5 0
   \<and> step \<lparr>A = 1.2, H_max = 1\<rparr> 1.19 0.1 1.5 0 \<le> 1.2 * 1
   \<and> 0 \<le> TVS_V (TVS_step \<lparr>TVS_A = 1.2, TVS_H_max = 1, TVS_V = 1.19\<rparr> 0.1 1.5 0)
   \<and> TVS_V (TVS_step \<lparr>TVS_A = 1.2, TVS_H_max = 1, TVS_V = 1.19\<rparr> 0.1 1.5 0) \<le> 1.2 * 1"
  using step_within_bounds [of "1.19" "\<lparr>A = 1.2, H_max = 1\<rparr>"
      "\<lparr>TVS_A = 1.2, TVS_H_max = 1, TVS_V = 1.19\<rparr>" "1.5" 0 "0.1"]
  by simp




section \<open>Render state\<close>

text \<open>
  C8. \<open>is_overflow\<close> holds exactly when the volume is at least
  \<open>maxVolume - 1e-6\<close>, with \<open>maxVolume = A * H_max\<close>; for \<open>maxVolume = 1.2\<close> it is
  false at the volume \<open>maxVolume - 0.01\<close>. Both files.
\<close>

theorem is_overflow_iff:
  "(is_overflow t v \<longleftrightarrow> v \<ge> A t * H_max t - 1 / 10 ^ 6)
   \<and> \<not> is_overflow \<lparr>A = 1.2, H_max = 1\<rparr> (1.2 - 0.01)
   \<and> (TVS_is_overflow u \<longleftrightarrow> TVS_V u \<ge> TVS_A u * TVS_H_max u - 1 / 10 ^ 6)
   \<and> \<not> TVS_is_overflow \<lparr>TVS_A = 1.2, TVS_H_max = 1, TVS_V = 1.2 - 0.01\<rparr>"
  by (simp add: is_overflow_def TVS_is_overflow_def V_max_def TVS_V_max_def)

section \<open>Configuration\<close>

text \<open>
  C3, as stated, fails: neither constructor checks its arguments. A tank of area 0, and
  one of height \<open>-1\<close>, are built without any error.
\<close>

theorem Tank_init_counterexample:
  "\<not> isl (Tank_init 0 1) \<and> \<not> isl (Tank_init 1.2 (- 1))
   \<and> \<not> isl (TVS_Tank_init 0 1) \<and> \<not> isl (TVS_Tank_init 1.2 (- 1))"
  by (simp add: Tank_init_def TVS_Tank_init_def)

text \<open>
  C3, amended. Tank construction succeeds for every area and height, zero and negative
  ones included, and stores them as given; no configuration error is raised.
\<close>

theorem Tank_init_accepts_all:
  "(\<exists>t. Tank_init area height = Inr t \<and> A t = area \<and> H_max t = height)
   \<and> (\<exists>u. TVS_Tank_init area height = Inr u \<and> TVS_A u = area \<and> TVS_H_max u = height
          \<and> TVS_V u = 0)"
  by (simp add: Tank_init_def TVS_Tank_init_def)

section \<open>Session actions\<close>

text \<open>
  C5. From any session state, paused or running, the Reset handler leaves the volume
  at 0, the inlet closed and the history empty; the pause flag is as before. Both files.
\<close>

theorem reset_clears:
  "tank_volume (reset s) = 0 \<and> \<not> inlet_open (reset s) \<and> history (reset s) = []
   \<and> paused (reset s) = paused s
   \<and> TVS_V (TVS_tank (TVS_reset u)) = 0 \<and> \<not> TVS_inlet_open (TVS_reset u)
   \<and> TVS_history (TVS_reset u) = [] \<and> TVS_paused (TVS_reset u) = TVS_paused u"
  by (simp add: reset_def TVS_reset_def)

section \<open>Simulation update\<close>

lemma script_tank_eq: "script_tank s = Inr tank \<Longrightarrow> tank = \<lparr>A = tank_area s, H_max = 1\<rparr>"
  by (auto simp: script_tank_def Tank_init_def)

text \<open>
  C2. On every non-paused tick the time delta is to be
  \<open>clamp(now - lastUpdateTimestamp, 0, 0.1)\<close>, so that a negative difference gives
  0. The code has the line \<open>dt = min(dt, 0.1)\<close>, commented "clamp to prevent huge
  jumps", and no lower bound. \<open>time.time()\<close> is the wall clock and can step back; with
  the clock one second behind \<open>last_update\<close> the delta is \<open>-1\<close>, not 0, and the step
  integrates it: with the inlet closed and the outlet at its default 0.35 the volume
  jumps from 0.5 to 0.85, in both files.
\<close>

theorem tick_dt_counterexample:
  "tick_dt 9 10 \<noteq> spec_clamp (9 - 10) 0 0.1 \<and> tick_dt 9 10 < 0
   \<and> map_sum id (tank_volume \<circ> snd)
        (simulation_update \<lparr>A = 1, H_max = 1\<rparr> 9 9
          \<lparr>tank_volume = 0.5, inlet_open = False, valve_position = 0, history = [],
           last_update = 10, paused = False, tank_area = 1, inlet_flow_value = None,
           outlet_flow_value = None\<rparr>) = Inr 0.85
   \<and> map_sum id (TVS_V \<circ> TVS_tank)
        (TVS_simulation_update 9 9
          \<lparr>TVS_tank_volume = 0, TVS_inlet_open = False, TVS_valve_position = 0,
           TVS_show_valve_modal = False, TVS_history = [], TVS_last_update = 10,
           TVS_paused = False, TVS_modal_opened_at = None,
           TVS_tank = \<lparr>TVS_A = 1, TVS_H_max = 1, TVS_V = 0.5\<rparr>,
           TVS_valve = \<lparr>Cv = 0.8, position = 0\<rparr>,
           TVS_inlet_flow = 0.8, TVS_outlet_flow = 0.35\<rparr>) = Inr 0.85"
  by (simp add: tick_dt_def spec_clamp_def simulation_update_def TVS_simulation_update_def
      step_def TVS_step_def level_def TVS_level_def clip_def V_max_def TVS_V_max_def
      record_history_def Let_def)

text \<open>
  How far the code agrees with the specified clamp: the delta of a tick is the
  specified one exactly when the clock has not stepped back, and it is the delta the
  step is run with. (The tick runs to its end when \<open>maxVolume\<close> is not 0.)
\<close>

lemma tick_dt_upper_clamp_only:
  assumes "\<not> paused s" and "script_tank s = Inr tank" and "tank_area s \<noteq> 0"
    and "\<not> TVS_paused u" and "TVS_A (TVS_tank u) * TVS_H_max (TVS_tank u) \<noteq> 0"
  shows "(tick_dt ct lt = spec_clamp (ct - lt) 0 0.1 \<longleftrightarrow> 0 \<le> ct - lt)
       \<and> (tick_dt ct lt < 0 \<longleftrightarrow> ct - lt < 0)
       \<and> tick_dt ct lt = (if ct - lt \<le> 0.1 then ct - lt else 0.1)
       \<and> (\<exists>tank' s'. simulation_update tank ct now s = Inr (tank', s')
             \<and> tank_volume s' =
                 step tank (tank_volume s) (tick_dt ct (last_update s))
                   (if inlet_open s
                    then (case inlet_flow_value s of None \<Rightarrow> 0.8 | Some v \<Rightarrow> v) else 0)
                   (case outlet_flow_value s of None \<Rightarrow> 0.35 | Some v \<Rightarrow> v))
       \<and> (\<exists>u'. TVS_simulation_update ct now u = Inr u'
             \<and> TVS_tank u' =
                 TVS_step (TVS_tank u) (tick_dt ct (TVS_last_update u))
                   (if TVS_inlet_open u then TVS_inlet_flow u else 0) (TVS_outlet_flow u))"
proof -
  have dt: "(tick_dt ct lt = spec_clamp (ct - lt) 0 0.1 \<longleftrightarrow> 0 \<le> ct - lt)
       \<and> (tick_dt ct lt < 0 \<longleftrightarrow> ct - lt < 0)
       \<and> tick_dt ct lt = (if ct - lt \<le> 0.1 then ct - lt else 0.1)"
    by (auto simp: tick_dt_def spec_clamp_def min_def max_def)
  have tank: "tank = \<lparr>A = tank_area s, H_max = 1\<rparr>"
    using assms(2) by (rule script_tank_eq)
  have stv: "\<exists>tank' s'. simulation_update tank ct now s = Inr (tank', s')
             \<and> tank_volume s' =
                 step tank (tank_volume s) (tick_dt ct (last_update s))
                   (if inlet_open s
                    then (case inlet_flow_value s of None \<Rightarrow> 0.8 | Some v \<Rightarrow> v) else 0)
                   (case outlet_flow_value s of None \<Rightarrow> 0.35 | Some v \<Rightarrow> v)"
    using assms(1,3) by (simp add: tank simulation_update_def level_def V_max_def Let_def)
  have tvs: "\<exists>u'. TVS_simulation_update ct now u = Inr u'
             \<and> TVS_tank u' =
                 TVS_step (TVS_tank u) (tick_dt ct (TVS_last_update u))
                   (if TVS_inlet_open u then TVS_inlet_flow u else 0) (TVS_outlet_flow u)"
    using assms(4,5)
    by (simp add: TVS_simulation_update_def TVS_level_def TVS_V_max_def TVS_step_def Let_def)
  from dt stv tvs show ?thesis by blast
qed

lemma tick_dt_upper_clamp_only_instance:
  "tick_dt 10.05 10 = spec_clamp (10.05 - 10) 0 0.1
   \<and> (\<exists>tank' s'. simulation_update \<lparr>A = 1, H_max = 1\<rparr> 10.05 10.05
          \<lparr>tank_volume = 0.5, inlet_open = True, valve_position = 0, history = [],
           last_update = 10, paused = False, tank_area = 1, inlet_flow_value = None,
           outlet_flow_value = None\<rparr> = Inr (tank', s')
        \<and> tank_volume s' = 0.5225)
   \<and> (\<exists>u'. TVS_simulation_update 10.05 10.05
          \<lparr>TVS_tank_volume = 0, TVS_inlet_open = True, TVS_valve_position = 0,
           TVS_show_valve_modal = False, TVS_history = [], TVS_last_update = 10,
           TVS_paused = False, TVS_modal_opened_at = None,
           TVS_tank = \<lparr>TVS_A = 1, TVS_H_max = 1, TVS_V = 0.5\<rparr>,
           TVS_valve = \<lparr>Cv = 0.8, position = 0\<rparr>,
           TVS_inlet_flow = 0.8, TVS_outlet_flow = 0.35\<rparr> = Inr u'
        \<and> TVS_V (TVS_tank u') = 0.5225)"
  using tick_dt_upper_clamp_only [of
      "\<lparr>tank_volume = 0.5, inlet_open = True, valve_position = 0, history = [],
        last_update = 10, paused = False, tank_area = 1, inlet_flow_value = None,
        outlet_flow_value = None\<rparr>"
      "\<lparr>A = 1, H_max = 1\<rparr>"
      "\<lparr>TVS_tank_volume = 0, TVS_inlet_open = True, TVS_valve_position = 0,
        TVS_show_valve_modal = False, TVS_history = [], TVS_last_update = 10,
        TVS_paused = False, TVS_modal_opened_at = None,
        TVS_tank = \<lparr>TVS_A = 1, TVS_H_max = 1, TVS_V = 0.5\<rparr>,
        TVS_valve = \<lparr>Cv = 0.8, position = 0\<rparr>,
        TVS_inlet_flow = 0.8, TVS_outlet_flow = 0.35\<rparr>"
      "10.05" 10 "10.05"]
  by (auto simp: script_tank_def Tank_init_def tick_dt_def spec_clamp_def step_def
      TVS_step_def clip_def V_max_def TVS_V_max_def)

text \<open>
  C10. A tick of the simulation update changes nothing but the tank volume,
  \<open>last_update\<close> and the history: the session after the tick is the session before it
  with these three replaced. In particular the inlet flag, the pause flag, the valve
  position, both flow setpoints and the tank geometry are as before; in
  \<^verbatim>\<open>streamlit-tank-valve.py\<close> the tank object built for the run is unchanged by the
  assignment to \<open>tank.A\<close>. (The tick runs to its end when \<open>maxVolume\<close> is not 0.)
\<close>

theorem simulation_update_frame:
  assumes "script_tank s = Inr tank" and "tank_area s \<noteq> 0"
    and "TVS_A (TVS_tank u) * TVS_H_max (TVS_tank u) \<noteq> 0"
  shows "(\<exists>tank' s'. simulation_update tank ct now s = Inr (tank', s')
            \<and> s' = s\<lparr>tank_volume := tank_volume s', last_update := last_update s',
                      history := history s'\<rparr>
            \<and> inlet_open s' = inlet_open s \<and> paused s' = paused s
            \<and> valve_position s' = valve_position s
            \<and> inlet_flow_value s' = inlet_flow_value s
            \<and> outlet_flow_value s' = outlet_flow_value s
            \<and> tank_area s' = tank_area s \<and> tank' = tank)
       \<and> (\<exists>u'. TVS_simulation_update ct now u = Inr u'
            \<and> u' = u\<lparr>TVS_tank := (TVS_tank u)\<lparr>TVS_V := TVS_V (TVS_tank u')\<rparr>,
                      TVS_last_update := TVS_last_update u', TVS_history := TVS_history u'\<rparr>
            \<and> TVS_inlet_open u' = TVS_inlet_open u \<and> TVS_paused u' = TVS_paused u
            \<and> TVS_valve_position u' = TVS_valve_position u \<and> TVS_valve u' = TVS_valve u
            \<and> TVS_inlet_flow u' = TVS_inlet_flow u \<and> TVS_outlet_flow u' = TVS_outlet_flow u
            \<and> TVS_A (TVS_tank u') = TVS_A (TVS_tank u)
            \<and> TVS_H_max (TVS_tank u') = TVS_H_max (TVS_tank u))"
proof -
  have tank: "tank = \<lparr>A = tank_area s, H_max = 1\<rparr>"
    using assms(1) by (rule script_tank_eq)
  have stv: "\<exists>tank' s'. simulation_update tank ct now s = Inr (tank', s')
            \<and> s' = s\<lparr>tank_volume := tank_volume s', last_update := last_update s',
                      history := history s'\<rparr>
            \<and> inlet_open s' = inlet_open s \<and> paused s' = paused s
            \<and> valve_position s' = valve_position s
            \<and> inlet_flow_value s' = inlet_flow_value s
            \<and> outlet_flow_value s' = outlet_flow_value s
            \<and> tank_area s' = tank_area s \<and> tank' = tank"
    using assms(2) by (simp add: tank simulation_update_def level_def V_max_def Let_def)
  have tvs: "\<exists>u'. TVS_simulation_update ct now u = Inr u'
            \<and> u' = u\<lparr>TVS_tank := (TVS_tank u)\<lparr>TVS_V := TVS_V (TVS_tank u')\<rparr>,
                      TVS_last_update := TVS_last_update u', TVS_history := TVS_history u'\<rparr>
            \<and> TVS_inlet_open u' = TVS_inlet_open u \<and> TVS_paused u' = TVS_paused u
            \<and> TVS_valve_position u' = TVS_valve_position u \<and> TVS_valve u' = TVS_valve u
            \<and> TVS_inlet_flow u' = TVS_inlet_flow u \<and> TVS_outlet_flow u' = TVS_outlet_flow u
            \<and> TVS_A (TVS_tank u') = TVS_A (TVS_tank u)
            \<and> TVS_H_max (TVS_tank u') = TVS_H_max (TVS_tank u)"
    using assms(3)
    by (simp add: TVS_simulation_update_def TVS_level_def TVS_V_max_def TVS_step_def Let_def)
  from stv tvs show ?thesis by (rule conjI)
qed

theorem simulation_update_frame_witness:
  "(\<exists>tank' s'. simulation_update \<lparr>A = 1.2, H_max = 1\<rparr> 10.05 10.05
          \<lparr>tank_volume = 0.5, inlet_open = True, valve_position = 0.3, history = [],
           last_update = 10, paused = False, tank_area = 1.2, inlet_flow_value = Some 1.5,
           outlet_flow_value = Some 0.2\<rparr> = Inr (tank', s')
        \<and> inlet_open s' \<and> \<not> paused s' \<and> valve_position s' = 0.3
        \<and> inlet_flow_value s' = Some 1.5 \<and> outlet_flow_value s' = Some 0.2
        \<and> tank_area s' = 1.2 \<and> tank' = \<lparr>A = 1.2, H_max = 1\<rparr>)
   \<and> (\<exists>u'. TVS_simulation_update 10.05 10.05
          \<lparr>TVS_tank_volume = 0, TVS_inlet_open = True, TVS_valve_position = 0.3,
           TVS_show_valve_modal = False, TVS_history = [], TVS_last_update = 10,
           TVS_paused = False, TVS_modal_opened_at = None,
           TVS_tank = \<lparr>TVS_A = 1.2, TVS_H_max = 1, TVS_V = 0.5\<rparr>,
           TVS_valve = \<lparr>Cv = 0.8, position = 0\<rparr>,
           TVS_inlet_flow = 1.5, TVS_outlet_flow = 0.2\<rparr> = Inr u'
        \<and> TVS_inlet_open u' \<and> \<not> TVS_paused u' \<and> TVS_valve_position u' = 0.3
        \<and> TVS_inlet_flow u' = 1.5 \<and> TVS_outlet_flow u' = 0.2
        \<and> TVS_A (TVS_tank u') = 1.2 \<and> TVS_H_max (TVS_tank u') = 1)"
  using simulation_update_frame [of
      "\<lparr>tank_volume = 0.5, inlet_open = True, valve_position = 0.3, history = [],
        last_update = 10, paused = False, tank_area = 1.2, inlet_flow_value = Some 1.5,
        outlet_flow_value = Some 0.2\<rparr>"
      "\<lparr>A = 1.2, H_max = 1\<rparr>"
      "\<lparr>TVS_tank_volume = 0, TVS_inlet_open = True, TVS_valve_position = 0.3,
        TVS_show_valve_modal = False, TVS_history = [], TVS_last_update = 10,
        TVS_paused = False, TVS_modal_opened_at = None,
        TVS_tank = \<lparr>TVS_A = 1.2, TVS_H_max = 1, TVS_V = 0.5\<rparr>,
        TVS_valve = \<lparr>Cv = 0.8, position = 0\<rparr>,
        TVS_inlet_flow = 1.5, TVS_outlet_flow = 0.2\<rparr>"
      "10.05" "10.05"]
  by (auto simp: script_tank_def Tank_init_def)

section \<open>History buffer\<close>

lemma record_history_step:
  assumes "length h \<le> 100"
  shows "record_history h x = drop (Suc (length h) - 100) (h @ [x])"
proof (cases "length h = 100")
  case True
  then have "record_history h x = tl (h @ [x])"
    by (simp add: record_history_def)
  also have "\<dots> = drop (Suc 0) (h @ [x])"
    by (cases "h @ [x]") simp_all
  finally show ?thesis using True by simp
next
  case False
  with assms have "length h < 100" by simp
  then show ?thesis by (simp add: record_history_def)
qed

lemma drop_window_snoc:
  fixes ys :: "'a list"
  defines "k \<equiv> length ys - 100"
  shows "drop (Suc (length (drop k ys)) - 100) (drop k ys @ [x])
         = drop (Suc (length ys) - 100) (ys @ [x])"
proof (cases "length ys \<le> 100")
  case True
  then show ?thesis by (simp add: k_def)
next
  case False
  then have k: "k \<le> length ys" "length ys - k = 100" "Suc (length ys) - 100 = Suc k"
    by (simp_all add: k_def)
  have "drop (Suc (length (drop k ys)) - 100) (drop k ys @ [x])
        = drop (Suc 0) (drop k (ys @ [x]))"
    using k by simp
  also have "\<dots> = drop (Suc k) (ys @ [x])"
    by (simp only: drop_drop) simp
  finally show ?thesis using k by simp
qed

lemma foldl_record_history:
  "length h \<le> 100 \<Longrightarrow>
   foldl record_history h xs = drop (length (h @ xs) - 100) (h @ xs)"
proof (induction xs rule: rev_induct)
  case Nil
  then show ?case by simp
next
  case (snoc x xs)
  let ?ys = "h @ xs"
  let ?k = "length ?ys - 100"
  have len: "length (drop ?k ?ys) \<le> 100" by simp
  have "foldl record_history h (xs @ [x]) = record_history (drop ?k ?ys) x"
    using snoc by simp
  also have "\<dots> = drop (Suc (length (drop ?k ?ys)) - 100) (drop ?k ?ys @ [x])"
    using len by (rule record_history_step)
  also have "\<dots> = drop (Suc (length ?ys) - 100) (?ys @ [x])"
    by (rule drop_window_snoc)
  finally show ?case by simp
qed

text \<open>
  C4. After any sequence of appends to an empty history the buffer holds at most 100
  samples: it is the last 100 of the samples appended, in the order of insertion. So
  the 101st append drops exactly the sample appended first and keeps the other 100 in
  order. A single append keeps a buffer of at most 100 samples at most 100 long.
\<close>

theorem history_bounded_fifo:
  "length (foldl record_history [] xs) \<le> 100
   \<and> foldl record_history [] xs = drop (length xs - 100) xs
   \<and> (length xs = 100 \<longrightarrow> foldl record_history [] (xs @ [x]) = tl xs @ [x])
   \<and> (length h \<le> 100 \<longrightarrow> length (record_history h x) \<le> 100)"
proof -
  have a: "foldl record_history [] ys = drop (length ys - 100) ys" for ys :: "'a list"
    using foldl_record_history [of "[]" ys] by simp
  have b: "foldl record_history [] (xs @ [x]) = tl xs @ [x]" if "length xs = 100"
  proof -
    have "foldl record_history [] (xs @ [x]) = drop (Suc 0) (xs @ [x])"
      using that by (simp only: a) simp
    also have "\<dots> = tl xs @ [x]"
      using that by (cases xs) simp_all
    finally show ?thesis .
  qed
  have c: "length (record_history h x) \<le> 100" if "length h \<le> 100"
    using that by (simp add: record_history_step)
  from a [of xs] b c show ?thesis by simp
qed


theorem history_bounded_fifo_witness:
  "length [0..<100] = 100
   \<and> foldl record_history [] ([0..<100] @ [100]) = [1..<101]
   \<and> length (record_history [0..<100] (100::nat)) \<le> 100"
proof -
  have len: "length [0..<100] = 100" by simp
  have tl: "tl [0..<100] @ [100] = [1..<101]"
    by (simp add: upt_rec [of 0 100] upt_Suc_append [symmetric] del: upt_Suc)
  note inst = history_bounded_fifo [of "[0..<100]" 100 "[0..<100]"]
  from inst len have "foldl record_history [] ([0..<100] @ [100]) = tl [0..<100] @ [100]"
    by blast
  moreover from inst len have "length (record_history [0..<100] (100::nat)) \<le> 100"
    by (metis order_refl)
  ultimately show ?thesis using len tl by (simp only:)
qed

text \<open>Each non-paused tick of either file makes exactly one such append.\<close>

lemma simulation_update_history:
  assumes "\<not> paused s" and "simulation_update tank ct now s = Inr (tank', s')"
  shows "\<exists>x. history s' = record_history (history s) x"
  using assms
  by (auto simp: simulation_update_def Let_def split: sum.splits)

lemma TVS_simulation_update_history:
  assumes "\<not> TVS_paused u" and "TVS_simulation_update ct now u = Inr u'"
  shows "\<exists>x. TVS_history u' = record_history (TVS_history u) x"
  using assms
  by (auto simp: TVS_simulation_update_def Let_def split: sum.splits)

section \<open>Filling from empty\<close>

lemma clip_mono: "x \<le> y \<Longrightarrow> clip x a_min a_max \<le> clip y a_min a_max"
  by (simp add: clip_def min_def max_def)

lemma fraction_times_capacity:
  fixes m :: real
  assumes "m \<noteq> 0"
  shows "min 1 (max 0 (clip x 0 m / m)) * m = clip x 0 m"
proof (cases "0 < m")
  case True
  then have "0 \<le> clip x 0 m" "clip x 0 m \<le> m"
    using clip_bounds [of 0 m x] by simp_all
  with True have "0 \<le> clip x 0 m / m" "clip x 0 m / m \<le> 1"
    by simp_all
  then have "min 1 (max 0 (clip x 0 m / m)) = clip x 0 m / m"
    by simp
  then have "min 1 (max 0 (clip x 0 m / m)) * m = clip x 0 m / m * m"
    by (simp only:)
  also have "\<dots> = clip x 0 m"
    using True by simp
  finally show ?thesis .
next
  case False
  with assms have neg: "m < 0" by simp
  then have "clip x 0 m = m"
    by (simp add: clip_def min_def max_def)
  with neg show ?thesis by simp
qed

lemma filled_volume:
  assumes "A t * H_max t \<noteq> 0"
  shows "\<exists>l. level t (step t 0 dt Q_in 0) = Inr l
             \<and> l * V_max t = clip (Q_in * dt) 0 (V_max t)"
  using assms fraction_times_capacity [of "V_max t" "Q_in * dt"]
  by (simp add: level_def step_def V_max_def)

lemma TVS_filled_volume:
  assumes "TVS_A u * TVS_H_max u \<noteq> 0"
  shows "\<exists>l. TVS_level (TVS_step (u\<lparr>TVS_V := 0\<rparr>) dt Q_in 0) = Inr l
             \<and> l * TVS_V_max u = clip (Q_in * dt) 0 (TVS_V_max u)"
  using assms fraction_times_capacity [of "TVS_V_max u" "Q_in * dt"]
  by (simp add: TVS_level_def TVS_step_def TVS_V_max_def)

lemma clip_strict:
  assumes "0 < Q_in" and "0 \<le> dt1" and "dt1 < dt2" and "Q_in * dt2 \<le> m"
  shows "clip (Q_in * dt1) 0 m < clip (Q_in * dt2) 0 m"
proof -
  from assms have lt: "Q_in * dt1 < Q_in * dt2" by simp
  from assms have nn: "0 \<le> Q_in * dt1" by simp
  from lt nn assms(4) show ?thesis
    by (simp add: clip_def min_def max_def)
qed

text \<open>
  C7. For a fixed inlet flow \<open>qIn > 0\<close>, no outlet flow and an empty tank, the
  quantity \<open>level(step(0, dt, qIn, 0)) * maxVolume\<close> does not decrease when \<open>dt\<close>
  grows, and it grows strictly as long as the tank has not filled up
  (\<open>qIn * dt \<le> maxVolume\<close>). \<open>level\<close> returns in both steps; it divides by
  \<open>maxVolume\<close>, which is taken to be different from 0. Both files.
\<close>

theorem level_step_monotone:
  assumes "0 < Q_in" and "dt1 \<le> dt2"
    and "A t * H_max t \<noteq> 0" and "TVS_A u * TVS_H_max u \<noteq> 0"
  shows "(\<exists>l1 l2. level t (step t 0 dt1 Q_in 0) = Inr l1
            \<and> level t (step t 0 dt2 Q_in 0) = Inr l2
            \<and> l1 * (A t * H_max t) \<le> l2 * (A t * H_max t)
            \<and> (0 \<le> dt1 \<and> dt1 < dt2 \<and> Q_in * dt2 \<le> A t * H_max t
                 \<longrightarrow> l1 * (A t * H_max t) < l2 * (A t * H_max t)))
       \<and> (\<exists>l1 l2. TVS_level (TVS_step (u\<lparr>TVS_V := 0\<rparr>) dt1 Q_in 0) = Inr l1
            \<and> TVS_level (TVS_step (u\<lparr>TVS_V := 0\<rparr>) dt2 Q_in 0) = Inr l2
            \<and> l1 * (TVS_A u * TVS_H_max u) \<le> l2 * (TVS_A u * TVS_H_max u)
            \<and> (0 \<le> dt1 \<and> dt1 < dt2 \<and> Q_in * dt2 \<le> TVS_A u * TVS_H_max u
                 \<longrightarrow> l1 * (TVS_A u * TVS_H_max u) < l2 * (TVS_A u * TVS_H_max u)))"
proof -
  from assms(1,2) have le: "Q_in * dt1 \<le> Q_in * dt2" by simp
  obtain l1 l2 where l:
    "level t (step t 0 dt1 Q_in 0) = Inr l1" "l1 * V_max t = clip (Q_in * dt1) 0 (V_max t)"
    "level t (step t 0 dt2 Q_in 0) = Inr l2" "l2 * V_max t = clip (Q_in * dt2) 0 (V_max t)"
    using filled_volume [OF assms(3)] by metis
  have mono: "l1 * V_max t \<le> l2 * V_max t"
    using clip_mono [OF le] l(2,4) by simp
  have strict: "l1 * V_max t < l2 * V_max t"
    if "0 \<le> dt1 \<and> dt1 < dt2 \<and> Q_in * dt2 \<le> V_max t"
    using that clip_strict [OF assms(1), of dt1 dt2 "V_max t"] l(2,4) by simp
  obtain k1 k2 where k:
    "TVS_level (TVS_step (u\<lparr>TVS_V := 0\<rparr>) dt1 Q_in 0) = Inr k1"
    "k1 * TVS_V_max u = clip (Q_in * dt1) 0 (TVS_V_max u)"
    "TVS_level (TVS_step (u\<lparr>TVS_V := 0\<rparr>) dt2 Q_in 0) = Inr k2"
    "k2 * TVS_V_max u = clip (Q_in * dt2) 0 (TVS_V_max u)"
    using TVS_filled_volume [OF assms(4)] by metis
  have tmono: "k1 * TVS_V_max u \<le> k2 * TVS_V_max u"
    using clip_mono [OF le] k(2,4) by simp
  have tstrict: "k1 * TVS_V_max u < k2 * TVS_V_max u"
    if "0 \<le> dt1 \<and> dt1 < dt2 \<and> Q_in * dt2 \<le> TVS_V_max u"
    using that clip_strict [OF assms(1), of dt1 dt2 "TVS_V_max u"] k(2,4) by simp
  from l(1,3) mono strict k(1,3) tmono tstrict show ?thesis
    unfolding V_max_def TVS_V_max_def by blast
qed

theorem level_step_monotone_witness:
  "(\<exists>l1 l2. level \<lparr>A = 1.2, H_max = 1\<rparr> (step \<lparr>A = 1.2, H_max = 1\<rparr> 0 0.05 0.8 0) = Inr l1
       \<and> level \<lparr>A = 1.2, H_max = 1\<rparr> (step \<lparr>A = 1.2, H_max = 1\<rparr> 0 0.1 0.8 0) = Inr l2
       \<and> l1 * 1.2 < l2 * 1.2)
   \<and> (\<exists>l1 l2. TVS_level (TVS_step \<lparr>TVS_A = 1.2, TVS_H_max = 1, TVS_V = 0\<rparr> 0.05 0.8 0) = Inr l1
       \<and> TVS_level (TVS_step \<lparr>TVS_A = 1.2, TVS_H_max = 1, TVS_V = 0\<rparr> 0.1 0.8 0) = Inr l2
       \<and> l1 * 1.2 < l2 * 1.2)"
  using level_step_monotone [of "0.8" "0.05" "0.1" "\<lparr>A = 1.2, H_max = 1\<rparr>"
      "\<lparr>TVS_A = 1.2, TVS_H_max = 1, TVS_V = 0\<rparr>"]
  by auto

section \<open>Valve overlay\<close>

lemma valve_modal_timeout_early:
  assumes "TVS_show_valve_modal s" and "TVS_modal_opened_at s = Some t0" and "now - t0 \<le> 5"
  shows "valve_modal_timeout now s = s"
  using assms by (simp add: valve_modal_timeout_def)

lemma modal_ticks_early:
  assumes "TVS_show_valve_modal s" and "TVS_modal_opened_at s = Some t0"
    and "\<forall>now \<in> set nows. now - t0 \<le> 5"
  shows "modal_ticks nows s = s"
  using assms
proof (induction nows)
  case Nil
  then show ?case by simp
next
  case (Cons now nows)
  then have "valve_modal_timeout now s = s"
    by (simp add: valve_modal_timeout_early)
  with Cons show ?case by simp
qed

text \<open>
  C9. An overlay opened at \<open>t0\<close> is still open after every tick with
  \<open>now - t0 \<le> 5\<close>, so in particular at \<open>t0 + 4.9\<close>, and the first tick with
  \<open>now - t0 > 5\<close> closes it, when nothing else closes it before. \<open>t0\<close> is a reading
  of \<open>time.time()\<close>, the seconds since 1970, which is not 0.
\<close>

theorem overlay_auto_dismiss:
  assumes "t0 \<noteq> 0" and "\<forall>now \<in> set nows. now - t0 \<le> 5" and "late - t0 > 5"
  shows "TVS_show_valve_modal (modal_ticks nows (open_valve_control t0 s))
       \<and> \<not> TVS_show_valve_modal
             (valve_modal_timeout late (modal_ticks nows (open_valve_control t0 s)))"
proof -
  let ?s = "open_valve_control t0 s"
  have opened: "TVS_show_valve_modal ?s" "TVS_modal_opened_at ?s = Some t0"
    by (simp_all add: open_valve_control_def)
  from opened assms(2) have same: "modal_ticks nows ?s = ?s"
    by (rule modal_ticks_early)
  from assms(1,3) have "\<not> TVS_show_valve_modal (valve_modal_timeout late ?s)"
    by (simp add: valve_modal_timeout_def open_valve_control_def)
  with same opened(1) show ?thesis by simp
qed

theorem overlay_auto_dismiss_witness:
  "TVS_show_valve_modal
     (modal_ticks [1700000000.05, 1700000004.9, 1700000005]
       (open_valve_control 1700000000
         \<lparr>TVS_tank_volume = 0, TVS_inlet_open = False, TVS_valve_position = 0,
          TVS_show_valve_modal = False, TVS_history = [], TVS_last_update = 1700000000,
          TVS_paused = False, TVS_modal_opened_at = None,
          TVS_tank = \<lparr>TVS_A = 1.2, TVS_H_max = 1, TVS_V = 0\<rparr>,
          TVS_valve = \<lparr>Cv = 0.8, position = 0\<rparr>,
          TVS_inlet_flow = 0.8, TVS_outlet_flow = 0.35\<rparr>))
   \<and> \<not> TVS_show_valve_modal
       (valve_modal_timeout 1700000005.1
         (modal_ticks [1700000000.05, 1700000004.9, 1700000005]
           (open_valve_control 1700000000
             \<lparr>TVS_tank_volume = 0, TVS_inlet_open = False, TVS_valve_position = 0,
              TVS_show_valve_modal = False, TVS_history = [], TVS_last_update = 1700000000,
              TVS_paused = False, TVS_modal_opened_at = None,
              TVS_tank = \<lparr>TVS_A = 1.2, TVS_H_max = 1, TVS_V = 0\<rparr>,
              TVS_valve = \<lparr>Cv = 0.8, position = 0\<rparr>,
              TVS_inlet_flow = 0.8, TVS_outlet_flow = 0.35\<rparr>)))"
  using overlay_auto_dismiss [of 1700000000 "[1700000000.05, 1700000004.9, 1700000005]"
      "1700000005.1"
      "\<lparr>TVS_tank_volume = 0, TVS_inlet_open = False, TVS_valve_position = 0,
        TVS_show_valve_modal = False, TVS_history = [], TVS_last_update = 1700000000,
        TVS_paused = False, TVS_modal_opened_at = None,
        TVS_tank = \<lparr>TVS_A = 1.2, TVS_H_max = 1, TVS_V = 0\<rparr>,
        TVS_valve = \<lparr>Cv = 0.8, position = 0\<rparr>,
        TVS_inlet_flow = 0.8, TVS_outlet_flow = 0.35\<rparr>"]
  by simp

text \<open>
  The timeout check tests \<open>modal_opened_at\<close> by its truth value, and the float \<open>0.0\<close>
  is false like \<open>None\<close>: this is where the opening time is taken to be other than 0.
  An opening time of 0 would leave the overlay open.
\<close>

lemma overlay_opened_at_zero_stays_open:
  "TVS_show_valve_modal
     (valve_modal_timeout 5.1
       (open_valve_control 0
         \<lparr>TVS_tank_volume = 0, TVS_inlet_open = False, TVS_valve_position = 0,
          TVS_show_valve_modal = False, TVS_history = [], TVS_last_update = 0,
          TVS_paused = False, TVS_modal_opened_at = None,
          TVS_tank = \<lparr>TVS_A = 1.2, TVS_H_max = 1, TVS_V = 0\<rparr>,
          TVS_valve = \<lparr>Cv = 0.8, position = 0\<rparr>,
          TVS_inlet_flow = 0.8, TVS_outlet_flow = 0.35\<rparr>))
   \<and> TVS_show_valve_modal
       (modal_ticks [4.9, 5.1, 60, 3600]
         (open_valve_control 0
           \<lparr>TVS_tank_volume = 0, TVS_inlet_open = False, TVS_valve_position = 0,
            TVS_show_valve_modal = False, TVS_history = [], TVS_last_update = 0,
            TVS_paused = False, TVS_modal_opened_at = None,
            TVS_tank = \<lparr>TVS_A = 1.2, TVS_H_max = 1, TVS_V = 0\<rparr>,
            TVS_valve = \<lparr>Cv = 0.8, position = 0\<rparr>,
            TVS_inlet_flow = 0.8, TVS_outlet_flow = 0.35\<rparr>))"
  by (simp add: valve_modal_timeout_def open_valve_control_def)

end
